theory Spec2Isabelle
  imports Complex_Main "HOL-Library.Multiset" "HOL-Library.Char_ord" "HOL-Library.List_Lexorder"
begin

section \<open>Street routing backend: the safety-weighted edge cost\<close>

text \<open>
  The development follows \<^verbatim>\<open>street-routing-app/backend/app.py\<close>. Python floats are
  modelled as real numbers: comparisons, \<^verbatim>\<open>max\<close> and \<^verbatim>\<open>min\<close> are exact on floats, the
  arithmetic and the functions of \<^verbatim>\<open>math\<close> are taken without rounding, and NaN is not a
  value of the model.
\<close>

subsection \<open>Python values and exceptions\<close>

text \<open>
  \<open>PNum r\<close> is a value that \<^verbatim>\<open>float()\<close> reads as \<open>r\<close>; \<open>PText\<close> is text that
  \<^verbatim>\<open>float()\<close> rejects with ValueError; \<open>PNone\<close> is \<^verbatim>\<open>None\<close>, rejected with TypeError.
\<close>

datatype pyval = PNum real | PText string | PNone

datatype exn =
    TypeError
  | ValueError
  | AttributeError
  | IndexError
  | NetworkXNoPath
  | OtherException
  | HTTPException nat

fun py_float :: "pyval \<Rightarrow> exn + real" where
  "py_float (PNum r) = Inr r"
| "py_float (PText s) = Inl ValueError"
| "py_float PNone = Inl TypeError"

text \<open>\<^verbatim>\<open>int(x)\<close> on a float truncates towards zero.\<close>

definition py_int :: "real \<Rightarrow> int" where
  "py_int r = (if 0 \<le> r then \<lfloor>r\<rfloor> else \<lceil>r\<rceil>)"

subsection \<open>Great-circle distance\<close>

definition radians :: "real \<Rightarrow> real" where
  "radians d = d * (pi / 180)"

text \<open>\<^verbatim>\<open>math.atan2(y, x)\<close>: the angle of the point \<open>(x, y)\<close>, in \<open>(-pi, pi]\<close>.\<close>

definition atan2 :: "real \<Rightarrow> real \<Rightarrow> real" where
  "atan2 b a =
     (if 0 < a then arctan (b / a)
      else if a < 0 \<and> 0 \<le> b then arctan (b / a) + pi
      else if a < 0 then arctan (b / a) - pi
      else if 0 < b then pi / 2
      else if b < 0 then - (pi / 2)
      else 0)"

definition haversine :: "real \<times> real \<Rightarrow> real \<times> real \<Rightarrow> real" where
  "haversine p q =
     (let R = 6371000;
          lat1 = radians (fst p); lon1 = radians (snd p);
          lat2 = radians (fst q); lon2 = radians (snd q);
          dlat = lat2 - lat1;
          dlon = lon2 - lon1;
          a = (sin (dlat / 2))\<^sup>2 + cos lat1 * cos lat2 * (sin (dlon / 2))\<^sup>2;
          c = 2 * atan2 (sqrt a) (sqrt (1 - a))
      in R * c)"

subsection \<open>The street graph\<close>

text \<open>
  A node carries the attributes \<^verbatim>\<open>y\<close> (latitude) and \<^verbatim>\<open>x\<close> (longitude), each
  possibly absent. An edge attribute dictionary maps attribute names to values. Between
  two nodes the graph holds a list of parallel edges (empty when there is no edge).
  \<open>nodes G u\<close> is \<^verbatim>\<open>G.nodes[u]\<close>; the search only hands over nodes of the graph.
\<close>

record node_attrs =
  node_y :: "real option"
  node_x :: "real option"

type_synonym attrs = "string \<rightharpoonup> pyval"

record graph =
  nodes :: "nat \<Rightarrow> node_attrs"
  edges :: "nat \<Rightarrow> nat \<Rightarrow> attrs list"

subsection \<open>Parameters of the cost model\<close>

definition SAFE_SIGMA :: real where "SAFE_SIGMA = 40"
definition SAMPLE_STEP :: real where "SAMPLE_STEP = 15"
definition SAFE_ALPHA :: real where "SAFE_ALPHA = 3"
definition SAFE_EPS :: real where "SAFE_EPS = 1 / 1000000"

definition PEDS_SIGMA :: real where "PEDS_SIGMA = 30"
definition PEDS_GAMMA :: real where "PEDS_GAMMA = 2"
definition PEDS_RADIUS :: real where "PEDS_RADIUS = 100"
definition PEDS_WEIGHT :: real where "PEDS_WEIGHT = 6"
definition HIGH_RISK_THRESHOLD :: real where "HIGH_RISK_THRESHOLD = 85 / 100"
definition HIGH_RISK_RADIUS :: real where "HIGH_RISK_RADIUS = PEDS_RADIUS"
definition HIGH_RISK_JUMP :: real where "HIGH_RISK_JUMP = 20"

definition MIN_DENSITY :: real where "MIN_DENSITY = 5 / 100"
definition DARKNESS_PENALTY :: real where "DARKNESS_PENALTY = 2"

definition ped_inv_twosig2 :: real where
  "ped_inv_twosig2 = 1 / (2 * (PEDS_SIGMA * PEDS_SIGMA))"

definition inv_twosig2 :: real where
  "inv_twosig2 = 1 / (2 * (SAFE_SIGMA * SAFE_SIGMA))"

subsection \<open>Lighting density of an edge\<close>

text \<open>
  The inner loop of \<^verbatim>\<open>_edge_density\<close>: the kernel sum \<open>s\<close> at one sample point, over
  the lighting points in order.
\<close>

fun light_loop :: "real \<times> real \<Rightarrow> (real \<times> real) list \<Rightarrow> real \<Rightarrow> real" where
  "light_loop loc [] s = s"
| "light_loop loc ((ly, lx) # ls) s =
     (let d = haversine loc (ly, lx)
      in if d > SAFE_SIGMA * 4 then light_loop loc ls s
         else light_loop loc ls (s + exp (- (d * d) * inv_twosig2)))"

text \<open>The sample point number \<open>i\<close> of \<open>n\<close> on the straight line between the end nodes.\<close>

definition sample_pt :: "real \<Rightarrow> real \<Rightarrow> real \<Rightarrow> real \<Rightarrow> int \<Rightarrow> int \<Rightarrow> real \<times> real" where
  "sample_pt uy ux vy vx n i =
     (let t = real_of_int i / real_of_int n;
          sy = uy + (vy - uy) * t;
          sx = ux + (vx - ux) * t
      in (sy, sx))"

text \<open>The outer loop, over \<^verbatim>\<open>range(n + 1)\<close>, accumulating \<open>acc\<close>.\<close>

fun density_loop ::
  "(real \<times> real) list \<Rightarrow> real \<Rightarrow> real \<Rightarrow> real \<Rightarrow> real \<Rightarrow> int \<Rightarrow> int list \<Rightarrow> real \<Rightarrow> real" where
  "density_loop lights_pts uy ux vy vx n [] acc = acc"
| "density_loop lights_pts uy ux vy vx n (i # is) acc =
     (let loc = sample_pt uy ux vy vx n i;
          s = light_loop loc lights_pts 0
      in density_loop lights_pts uy ux vy vx n is (acc + s))"

text \<open>
  The four coordinates of an edge's end nodes, or \<open>None\<close> when one of them is absent
  (the test \<^verbatim>\<open>None in (uy, ux, vy, vx)\<close>).
\<close>

definition node_coords :: "graph \<Rightarrow> nat \<Rightarrow> nat \<Rightarrow> (real \<times> real \<times> real \<times> real) option" where
  "node_coords G u v =
     (case (node_y (nodes G u), node_x (nodes G u), node_y (nodes G v), node_x (nodes G v)) of
        (Some uy, Some ux, Some vy, Some vx) \<Rightarrow> Some (uy, ux, vy, vx)
      | _ \<Rightarrow> None)"

definition edge_density :: "(real \<times> real) list \<Rightarrow> graph \<Rightarrow> nat \<Rightarrow> nat \<Rightarrow> real" where
  "edge_density lights_pts G u v =
     (case node_coords G u v of
        None \<Rightarrow> 0
      | Some (uy, ux, vy, vx) \<Rightarrow>
          if lights_pts = [] then 0
          else
            let L = haversine (uy, ux) (vy, vx)
            in if L \<le> 0 then 0
               else
                 let n = max 1 (py_int (L / SAMPLE_STEP));
                     acc = density_loop lights_pts uy ux vy vx n [0..n] 0
                 in acc / real_of_int (n + 1))"

subsection \<open>Hazard statistics of an edge\<close>

text \<open>
  A hazard point is \<open>(lat, lon, score)\<close>. The inner loop of \<^verbatim>\<open>_edge_ped_stats\<close> carries
  the kernel sum \<open>s\<close> of the sample and the flag \<open>peak\<close>, which the loops never reset.
\<close>

type_synonym ped_pt = "real \<times> real \<times> real"

fun ped_loop :: "real \<times> real \<Rightarrow> ped_pt list \<Rightarrow> real \<times> real \<Rightarrow> real \<times> real" where
  "ped_loop loc [] (s, peak) = (s, peak)"
| "ped_loop loc ((py, px, score) # ps) (s, peak) =
     (if score \<le> 0 then ped_loop loc ps (s, peak)
      else
        let d = haversine loc (py, px)
        in if d > PEDS_RADIUS then ped_loop loc ps (s, peak)
           else
             let s' = s + (score powr PEDS_GAMMA) * exp (- (d * d) * ped_inv_twosig2);
                 peak' = (if score \<ge> HIGH_RISK_THRESHOLD \<and> d \<le> HIGH_RISK_RADIUS then 1 else peak)
             in ped_loop loc ps (s', peak'))"

fun ped_stats_loop ::
  "ped_pt list \<Rightarrow> real \<Rightarrow> real \<Rightarrow> real \<Rightarrow> real \<Rightarrow> int \<Rightarrow> int list \<Rightarrow> real \<times> real \<Rightarrow> real \<times> real" where
  "ped_stats_loop ped_pts uy ux vy vx n [] (acc, peak) = (acc, peak)"
| "ped_stats_loop ped_pts uy ux vy vx n (i # is) (acc, peak) =
     (let loc = sample_pt uy ux vy vx n i;
          (s, peak') = ped_loop loc ped_pts (0, peak)
      in ped_stats_loop ped_pts uy ux vy vx n is (acc + s, peak'))"

definition edge_ped_stats :: "ped_pt list \<Rightarrow> graph \<Rightarrow> nat \<Rightarrow> nat \<Rightarrow> real \<times> real" where
  "edge_ped_stats ped_pts G u v =
     (if ped_pts = [] then (0, 0)
      else
        case node_coords G u v of
          None \<Rightarrow> (0, 0)
        | Some (uy, ux, vy, vx) \<Rightarrow>
            let L = haversine (uy, ux) (vy, vx)
            in if L \<le> 0 then (0, 0)
               else
                 let n = max 1 (py_int (L / SAMPLE_STEP));
                     (acc, peak) = ped_stats_loop ped_pts uy ux vy vx n [0..n] (0, 0)
                 in (acc / real_of_int (n + 1), peak))"

subsection \<open>The edge weight\<close>

text \<open>
  \<open>dark_term\<close> and \<open>ped_term\<close> are the two local values of \<^verbatim>\<open>_edge_weight\<close> with
  these names; \<open>edge_weight\<close> is the function itself, with the variables it closes over
  (\<^verbatim>\<open>route_pref\<close>, \<^verbatim>\<open>lights_pts\<close>, \<^verbatim>\<open>ped_pts\<close>, \<^verbatim>\<open>G\<close>) as arguments.
\<close>

definition dark_term :: "(real \<times> real) list \<Rightarrow> graph \<Rightarrow> nat \<Rightarrow> nat \<Rightarrow> real" where
  "dark_term lights_pts G u v =
     (let dens = edge_density lights_pts G u v;
          pen = (if dens < MIN_DENSITY then DARKNESS_PENALTY else 1)
      in (1 / (SAFE_EPS + SAFE_ALPHA * dens)) * pen)"

definition ped_term :: "ped_pt list \<Rightarrow> graph \<Rightarrow> nat \<Rightarrow> nat \<Rightarrow> real" where
  "ped_term ped_pts G u v =
     (let (ped_danger, ped_peak) = edge_ped_stats ped_pts G u v
      in PEDS_WEIGHT * ped_danger + HIGH_RISK_JUMP * ped_peak)"

definition attr_get :: "attrs \<Rightarrow> string \<Rightarrow> pyval \<Rightarrow> pyval" where
  "attr_get d k dflt = (case d k of None \<Rightarrow> dflt | Some w \<Rightarrow> w)"

text \<open>
  The third argument of \<^verbatim>\<open>_edge_weight\<close> is a Python dictionary, and which one depends
  on the graph. For a graph without parallel edges it is the attribute dictionary of
  the edge. The graphs of this program are multigraphs (\<^verbatim>\<open>_route_to_geojson\<close> iterates
  over \<^verbatim>\<open>G.get_edge_data(u, v).values()\<close>), and for a multigraph it is the dictionary
  from the keys of the parallel edges between \<open>u\<close> and \<open>v\<close> to their attribute
  dictionaries. The keys are numbers, so the text \<^verbatim>\<open>"length"\<close> is never among them and
  \<^verbatim>\<open>attrs.get("length", 1.0)\<close> is the default there.
\<close>

datatype edge_dict = AttrDict attrs | KeyedDict "(nat \<times> attrs) list"

definition dict_get_length :: "edge_dict \<Rightarrow> pyval" where
  "dict_get_length d =
     (case d of
        AttrDict a \<Rightarrow> attr_get a ''length'' (PNum 1)
      | KeyedDict kd \<Rightarrow> PNum 1)"

definition edge_weight ::
  "string \<Rightarrow> (real \<times> real) list \<Rightarrow> ped_pt list \<Rightarrow> graph \<Rightarrow> nat \<Rightarrow> nat \<Rightarrow> edge_dict \<Rightarrow> exn + real" where
  "edge_weight route_pref lights_pts ped_pts G u v attrs =
     (case py_float (dict_get_length attrs) of
        Inl e \<Rightarrow> Inl e
      | Inr base \<Rightarrow>
          if route_pref = ''short'' then Inr base
          else if route_pref = ''safe'' \<and> lights_pts \<noteq> [] then
            Inr (max (1 / 10) (dark_term lights_pts G u v + ped_term ped_pts G u v))
          else Inr base)"


subsection \<open>GeoJSON features and stored point collections\<close>

text \<open>
  A feature, as far as the loaders read it: the \<^verbatim>\<open>type\<close> of its geometry (\<open>None\<close> when
  the feature has no geometry or the geometry no type), the \<^verbatim>\<open>coordinates\<close> of the
  geometry (\<open>None\<close> when the key is absent; the entries are numbers), and the
  properties \<^verbatim>\<open>safety_score\<close> and \<^verbatim>\<open>score\<close>, each \<open>None\<close> when the key is absent.
\<close>

record feature =
  f_type :: "string option"
  f_coords :: "real list option"
  p_safety_score :: "pyval option"
  p_score :: "pyval option"

text \<open>A file on disk: text that does not parse as a feature collection, or the features.\<close>

datatype file_content = Unreadable | Features "feature list"

text \<open>
  The state the handlers share. \<open>ped_files\<close> are the candidate paths of
  \<^verbatim>\<open>PEDESTRIANS_FILES\<close> in order, each absent or present with its modification time and
  content. \<open>lighting\<close> is what \<^verbatim>\<open>_load_lighting_cached\<close> returns for the request (its
  features), or the exception raised on the way. Python lists are objects: \<open>heap\<close>
  maps the address of a list to its elements, and \<^verbatim>\<open>_PED_CACHE\<close> holds the address of
  the cached list, not a copy.
\<close>

record state =
  ped_files :: "(nat \<times> file_content) option list"
  hazards_file :: "file_content option"
  lighting :: "exn + feature list"
  heap :: "nat \<Rightarrow> ped_pt list"
  next_addr :: nat
  ped_cache_pts :: "nat option"
  ped_cache_mtime :: "nat option"

text \<open>A new list object with the given elements.\<close>

definition new_list :: "ped_pt list \<Rightarrow> state \<Rightarrow> nat \<times> state" where
  "new_list pts st =
     (next_addr st, st\<lparr>heap := (heap st)(next_addr st := pts), next_addr := Suc (next_addr st)\<rparr>)"

subsubsection \<open>Lighting points of a request\<close>

text \<open>
  The loop of \<^verbatim>\<open>route\<close> over the lighting features. \<^verbatim>\<open>lon, lat = coords[:2]\<close> raises
  ValueError on fewer than two coordinates; absent coordinates default to
  \<^verbatim>\<open>[None, None]\<close>, and the point is skipped.
\<close>

fun lights_loop :: "feature list \<Rightarrow> (real \<times> real) list \<Rightarrow> exn + (real \<times> real) list" where
  "lights_loop [] lights_pts = Inr lights_pts"
| "lights_loop (f # fs) lights_pts =
     (if f_type f = Some ''Point'' then
        (case f_coords f of
           None \<Rightarrow> lights_loop fs lights_pts
         | Some cs \<Rightarrow>
             (case take 2 cs of
                [lon, lat] \<Rightarrow> lights_loop fs (lights_pts @ [(lat, lon)])
              | _ \<Rightarrow> Inl ValueError))
      else lights_loop fs lights_pts)"

text \<open>Any exception while collecting leaves \<^verbatim>\<open>lights_pts = []\<close>.\<close>

definition collect_lights :: "exn + feature list \<Rightarrow> (real \<times> real) list" where
  "collect_lights gj_l =
     (case gj_l of
        Inl e \<Rightarrow> []
      | Inr feats \<Rightarrow> (case lights_loop feats [] of Inl e \<Rightarrow> [] | Inr pts \<Rightarrow> pts))"

subsubsection \<open>Hazards file\<close>

text \<open>The four places where a score is forced into \<open>[0, 1]\<close>, each as the source writes it.\<close>

definition clamp_load_hazards :: "real \<Rightarrow> real" where
  "clamp_load_hazards sc = (if sc < 0 then 0 else (if sc > 1 then 1 else sc))"

definition clamp_save_hazards :: "real \<Rightarrow> real" where
  "clamp_save_hazards sc = max 0 (min 1 sc)"

definition clamp_steps :: "real \<Rightarrow> real" where
  "clamp_steps sc = (let sc1 = (if sc < 0 then 0 else sc) in if sc1 > 1 then 1 else sc1)"

text \<open>\<^verbatim>\<open>props.get("safety_score", props.get("score", 1.0))\<close>\<close>

definition hazard_score_prop :: "feature \<Rightarrow> pyval" where
  "hazard_score_prop f =
     (case p_safety_score f of
        Some w \<Rightarrow> w
      | None \<Rightarrow> (case p_score f of Some w \<Rightarrow> w | None \<Rightarrow> PNum 1))"

text \<open>
  The loop of \<^verbatim>\<open>_load_hazards\<close>. An exception leaves the loop, and the function
  returns the points appended so far.
\<close>

fun hazards_loop :: "feature list \<Rightarrow> ped_pt list \<Rightarrow> ped_pt list" where
  "hazards_loop [] pts = pts"
| "hazards_loop (f # fs) pts =
     (if f_type f \<noteq> Some ''Point'' then hazards_loop fs pts
      else
        let coords = (case f_coords f of None \<Rightarrow> [] | Some cs \<Rightarrow> cs)
        in if length coords < 2 then hazards_loop fs pts
           else
             let lon = coords ! 0; lat = coords ! 1
             in (case py_float (hazard_score_prop f) of
                   Inl e \<Rightarrow> pts
                 | Inr sc \<Rightarrow> hazards_loop fs (pts @ [(lat, lon, clamp_load_hazards sc)])))"

definition load_hazards :: "state \<Rightarrow> ped_pt list" where
  "load_hazards st =
     (case hazards_file st of
        None \<Rightarrow> []
      | Some Unreadable \<Rightarrow> []
      | Some (Features feats) \<Rightarrow> hazards_loop feats [])"

text \<open>
  \<^verbatim>\<open>_save_hazards\<close>: an item is a dictionary or a tuple holding \<open>lat\<close>, \<open>lon\<close> and
  \<open>score\<close>; the file is replaced by the features built from the items.
\<close>

definition saved_feature :: "ped_pt \<Rightarrow> feature" where
  "saved_feature it =
     (case it of (lat, lon, sc) \<Rightarrow>
        \<lparr>f_type = Some ''Point'', f_coords = Some [lon, lat],
         p_safety_score = None, p_score = Some (PNum (clamp_save_hazards sc))\<rparr>)"

definition save_hazards :: "ped_pt list \<Rightarrow> state \<Rightarrow> feature list \<times> state" where
  "save_hazards items st =
     (let feats = map saved_feature items
      in (feats, st\<lparr>hazards_file := Some (Features feats)\<rparr>))"

text \<open>
  \<^verbatim>\<open>DELETE /hazards\<close> removes the file.
\<close>

definition delete_hazards :: "state \<Rightarrow> state" where
  "delete_hazards st = st\<lparr>hazards_file := None\<rparr>"

subsubsection \<open>POST /hazards\<close>

record HazardPoint =
  hp_lat :: real
  hp_lon :: real
  hp_score :: real

text \<open>An entry of a list payload: a dictionary, or a validated \<^verbatim>\<open>HazardPoint\<close>.\<close>

datatype hazard_entry = EntryDict attrs | EntryObj HazardPoint

datatype payload = PayloadList "hazard_entry list" | PayloadDict "feature list option"

definition entry_item :: "hazard_entry \<Rightarrow> exn + ped_pt" where
  "entry_item hp =
     (case hp of
        EntryDict d \<Rightarrow>
          (case py_float (attr_get d ''lat'' PNone) of
             Inl e \<Rightarrow> Inl e
           | Inr lat \<Rightarrow>
             (case py_float (attr_get d ''lon'' PNone) of
                Inl e \<Rightarrow> Inl e
              | Inr lon \<Rightarrow>
                (case py_float (attr_get d ''score'' (PNum 1)) of
                   Inl e \<Rightarrow> Inl e
                 | Inr sc \<Rightarrow> Inr (lat, lon, sc))))
      | EntryObj h \<Rightarrow> Inr (hp_lat h, hp_lon h, hp_score h))"

fun entries_loop :: "hazard_entry list \<Rightarrow> ped_pt list \<Rightarrow> exn + ped_pt list" where
  "entries_loop [] items = Inr items"
| "entries_loop (hp # hps) items =
     (case entry_item hp of
        Inl e \<Rightarrow> Inl e
      | Inr it \<Rightarrow> entries_loop hps (items @ [it]))"

fun features_loop :: "feature list \<Rightarrow> ped_pt list \<Rightarrow> exn + ped_pt list" where
  "features_loop [] items = Inr items"
| "features_loop (f # fs) items =
     (if f_type f \<noteq> Some ''Point'' then features_loop fs items
      else
        let coords = (case f_coords f of None \<Rightarrow> [] | Some cs \<Rightarrow> cs)
        in if length coords < 2 then features_loop fs items
           else
             let lon = coords ! 0; lat = coords ! 1
             in (case py_float (hazard_score_prop f) of
                   Inl e \<Rightarrow> Inl e
                 | Inr sc \<Rightarrow> features_loop fs (items @ [(lat, lon, sc)])))"

definition post_hazards :: "payload \<Rightarrow> state \<Rightarrow> exn + (feature list \<times> state)" where
  "post_hazards pl st =
     (case (case pl of
              PayloadList hps \<Rightarrow> entries_loop hps []
            | PayloadDict fo \<Rightarrow> features_loop (case fo of None \<Rightarrow> [] | Some feats \<Rightarrow> feats) [])
      of
        Inl e \<Rightarrow> Inl (HTTPException 400)
      | Inr items \<Rightarrow> Inr (save_hazards items st))"

subsubsection \<open>Pedestrians file\<close>

text \<open>
  The loop of \<^verbatim>\<open>_load_pedestrians\<close>. A score that \<^verbatim>\<open>float()\<close> rejects counts as
  \<open>0\<close>; absent coordinates skip the point; fewer than two coordinates raise.
\<close>

definition ped_score :: "feature \<Rightarrow> real" where
  "ped_score f =
     (case py_float (case p_safety_score f of None \<Rightarrow> PNum 0 | Some w \<Rightarrow> w) of
        Inl e \<Rightarrow> 0
      | Inr sc \<Rightarrow> sc)"

fun pedestrians_loop :: "feature list \<Rightarrow> ped_pt list \<Rightarrow> exn + ped_pt list" where
  "pedestrians_loop [] pts = Inr pts"
| "pedestrians_loop (f # fs) pts =
     (if f_type f = Some ''Point'' then
        (case f_coords f of
           None \<Rightarrow> pedestrians_loop fs pts
         | Some cs \<Rightarrow>
             (case take 2 cs of
                [lon, lat] \<Rightarrow> pedestrians_loop fs (pts @ [(lat, lon, clamp_steps (ped_score f))])
              | _ \<Rightarrow> Inl ValueError))
      else pedestrians_loop fs pts)"

text \<open>The first candidate path that exists.\<close>

fun first_existing :: "(nat \<times> file_content) option list \<Rightarrow> (nat \<times> file_content) option" where
  "first_existing [] = None"
| "first_existing (None # ps) = first_existing ps"
| "first_existing (Some p # ps) = Some p"

text \<open>
  \<^verbatim>\<open>_load_pedestrians\<close> returns a list object: a new empty list when there is no file or
  an exception is raised, the cached list itself when the modification time matches,
  otherwise a new list that also becomes the cached one. \<open>read_pedestrians\<close> is the part
  after the cache test.
\<close>

definition read_pedestrians :: "nat \<Rightarrow> file_content \<Rightarrow> state \<Rightarrow> nat \<times> state" where
  "read_pedestrians mtime content st =
     (case content of
        Unreadable \<Rightarrow> new_list [] st
      | Features feats \<Rightarrow>
          (case pedestrians_loop feats [] of
             Inl e \<Rightarrow> new_list [] st
           | Inr pts \<Rightarrow>
               (let (b, st') = new_list pts st
                in (b, st'\<lparr>ped_cache_pts := Some b, ped_cache_mtime := Some mtime\<rparr>))))"

definition load_pedestrians :: "state \<Rightarrow> nat \<times> state" where
  "load_pedestrians st =
     (case first_existing (ped_files st) of
        None \<Rightarrow> new_list [] st
      | Some (mtime, content) \<Rightarrow>
          (case ped_cache_pts st of
             Some a \<Rightarrow>
               if ped_cache_mtime st = Some mtime then (a, st)
               else read_pedestrians mtime content st
           | None \<Rightarrow> read_pedestrians mtime content st))"


subsection \<open>The route request\<close>

record DangerPoint =
  dp_lat :: real
  dp_lon :: real
  dp_score :: real

record RouteRequest =
  origin_lat :: real
  origin_lon :: real
  dest_lat :: real
  dest_lon :: real
  place :: "string option"
  mode :: string
  force_refresh :: bool
  req_route_pref :: string
  extra_danger :: "DangerPoint list option"

text \<open>\<^verbatim>\<open>str.lower()\<close> on ASCII text.\<close>

definition lower_char :: "char \<Rightarrow> char" where
  "lower_char c =
     (let n = (of_char c :: nat) in if 65 \<le> n \<and> n \<le> 90 then char_of (n + 32) else c)"

definition py_lower :: "string \<Rightarrow> string" where
  "py_lower s = map lower_char s"

text \<open>
  \<^verbatim>\<open>route_pref = (getattr(req, "route_pref", "short") or "short").lower()\<close>, followed by
  the alias of \<^verbatim>\<open>fast\<close>.
\<close>

definition normalize_pref :: "string \<Rightarrow> string" where
  "normalize_pref rp =
     (let route_pref = py_lower (if rp = [] then ''short'' else rp)
      in if route_pref = ''fast'' then ''short'' else route_pref)"

subsubsection \<open>Danger points of a request\<close>

text \<open>
  \<^verbatim>\<open>DangerPoint\<close> declares the fields \<^verbatim>\<open>lat\<close>, \<^verbatim>\<open>lon\<close> and \<^verbatim>\<open>score\<close> and inherits
  from pydantic's \<^verbatim>\<open>BaseModel\<close>; neither provides an attribute \<^verbatim>\<open>get\<close>, so the
  expression \<^verbatim>\<open>dp.get(...)\<close> raises AttributeError. \<open>dp_getattr\<close> is
  \<^verbatim>\<open>getattr(dp, name, default)\<close>.
\<close>

definition dp_get :: "DangerPoint \<Rightarrow> string \<Rightarrow> pyval option \<Rightarrow> exn + pyval" where
  "dp_get dp k dflt = Inl AttributeError"

definition dp_getattr :: "DangerPoint \<Rightarrow> string \<Rightarrow> pyval \<Rightarrow> pyval" where
  "dp_getattr dp k dflt =
     (if k = ''lat'' then PNum (dp_lat dp)
      else if k = ''lon'' then PNum (dp_lon dp)
      else if k = ''score'' then PNum (dp_score dp)
      else dflt)"

text \<open>
  \<^verbatim>\<open>float(getattr(dp, k, dp.get(k)))\<close>: Python evaluates the arguments of a call before
  the call, so \<^verbatim>\<open>dp.get(k)\<close> is evaluated first.
\<close>

definition dp_field :: "DangerPoint \<Rightarrow> string \<Rightarrow> pyval option \<Rightarrow> exn + real" where
  "dp_field dp k dflt =
     (case dp_get dp k dflt of
        Inl e \<Rightarrow> Inl e
      | Inr d \<Rightarrow> py_float (dp_getattr dp k d))"

definition danger_entry :: "DangerPoint \<Rightarrow> exn + ped_pt" where
  "danger_entry dp =
     (case dp_field dp ''lat'' None of
        Inl e \<Rightarrow> Inl e
      | Inr lat \<Rightarrow>
        (case dp_field dp ''lon'' None of
           Inl e \<Rightarrow> Inl e
         | Inr lon \<Rightarrow>
           (case dp_field dp ''score'' (Some (PNum 1)) of
              Inl e \<Rightarrow> Inl e
            | Inr sc \<Rightarrow> Inr (lat, lon, clamp_steps sc))))"

text \<open>
  The loop over \<^verbatim>\<open>extra_danger\<close>, appending to \<^verbatim>\<open>ped_pts\<close>; an exception ends the
  loop and is dropped (\<^verbatim>\<open>except Exception: pass\<close>).
\<close>

fun extra_danger_loop :: "DangerPoint list \<Rightarrow> ped_pt list \<Rightarrow> ped_pt list" where
  "extra_danger_loop [] ped_pts = ped_pts"
| "extra_danger_loop (dp # dps) ped_pts =
     (case danger_entry dp of
        Inl e \<Rightarrow> ped_pts
      | Inr pt \<Rightarrow> extra_danger_loop dps (ped_pts @ [pt]))"

text \<open>
  Lines 365 to 381 of \<^verbatim>\<open>route\<close>: \<^verbatim>\<open>ped_pts\<close> is the list object that
  \<^verbatim>\<open>_load_pedestrians\<close> returned, \<^verbatim>\<open>+=\<close> extends that object in place, and so does
  \<^verbatim>\<open>append\<close>. The result is the address of \<^verbatim>\<open>ped_pts\<close>; the cost functions read
  the list at that address.
\<close>

definition danger_pts :: "DangerPoint list option \<Rightarrow> state \<Rightarrow> nat \<times> state" where
  "danger_pts extra st =
     (let (a, st1) = load_pedestrians st;
          hz = load_hazards st1;
          st2 = st1\<lparr>heap := (heap st1)(a := heap st1 a @ hz)\<rparr>;
          dps = (case extra of None \<Rightarrow> [] | Some ds \<Rightarrow> ds);
          st3 = st2\<lparr>heap := (heap st2)(a := extra_danger_loop dps (heap st2 a))\<rparr>
      in (a, st3))"

subsection \<open>Route assembly\<close>

record step =
  step_from :: nat
  step_to :: nat
  street :: pyval
  length_m :: real

datatype geometry = LineString "(real \<times> real) list" | MultiLineString "(real \<times> real) list list"

record route_feature =
  distance_m :: real
  steps :: "step list"
  route_geometry :: geometry

text \<open>\<^verbatim>\<open>round(x, 1)\<close>: to the nearest tenth, a tie to the even one.\<close>

definition py_round1 :: "real \<Rightarrow> real" where
  "py_round1 r =
     (let m = r * 10; f = \<lfloor>m\<rfloor>; d = m - of_int f
      in (if d < 1 / 2 then of_int f
          else if d > 1 / 2 then of_int (f + 1)
          else if even f then of_int f
          else of_int (f + 1)) / 10)"

text \<open>\<^verbatim>\<open>a < b\<close> on two attribute values.\<close>

fun py_less :: "pyval \<Rightarrow> pyval \<Rightarrow> exn + bool" where
  "py_less (PNum a) (PNum b) = Inr (a < b)"
| "py_less (PText a) (PText b) = Inr (a < b)"
| "py_less a b = Inl TypeError"

text \<open>
  \<^verbatim>\<open>min(..., key=lambda d: d.get("length", 0))\<close> over the parallel edges: the first of
  the edges with the least key. \<^verbatim>\<open>G.get_edge_data(u, v)\<close> is \<^verbatim>\<open>None\<close> when there is no
  edge, and \<^verbatim>\<open>.values()\<close> raises on it.
\<close>

fun min_loop :: "attrs \<Rightarrow> attrs list \<Rightarrow> exn + attrs" where
  "min_loop best [] = Inr best"
| "min_loop best (d # ds) =
     (case py_less (attr_get d ''length'' (PNum 0)) (attr_get best ''length'' (PNum 0)) of
        Inl e \<Rightarrow> Inl e
      | Inr b \<Rightarrow> if b then min_loop d ds else min_loop best ds)"

definition min_length_edge :: "graph \<Rightarrow> nat \<Rightarrow> nat \<Rightarrow> exn + attrs" where
  "min_length_edge G u v =
     (case edges G u v of
        [] \<Rightarrow> Inl AttributeError
      | d # ds \<Rightarrow> min_loop d ds)"

text \<open>\<^verbatim>\<open>zip(route_nodes[:-1], route_nodes[1:])\<close>\<close>

fun node_pairs :: "nat list \<Rightarrow> (nat \<times> nat) list" where
  "node_pairs (u # v # ns) = (u, v) # node_pairs (v # ns)"
| "node_pairs ns = []"

fun steps_loop :: "graph \<Rightarrow> (nat \<times> nat) list \<Rightarrow> step list \<Rightarrow> real \<Rightarrow> exn + step list \<times> real" where
  "steps_loop G [] sts total_len = Inr (sts, total_len)"
| "steps_loop G ((u, v) # ps) sts total_len =
     (case min_length_edge G u v of
        Inl e \<Rightarrow> Inl e
      | Inr data \<Rightarrow>
        (case py_float (attr_get data ''length'' (PNum 0)) of
           Inl e \<Rightarrow> Inl e
         | Inr len \<Rightarrow>
             steps_loop G ps
               (sts @ [\<lparr>step_from = u, step_to = v,
                         street = attr_get data ''name'' (PText ''unnamed''),
                         length_m = py_round1 len\<rparr>])
               (total_len + len)))"

text \<open>
  \<open>lines\<close> stands for the first half of \<^verbatim>\<open>_route_to_geojson\<close>, which builds and
  merges the line geometries with shapely: the list \<^verbatim>\<open>coords\<close>, or the exception raised.
\<close>

definition route_to_geojson ::
  "(graph \<Rightarrow> nat list \<Rightarrow> exn + (real \<times> real) list list) \<Rightarrow> graph \<Rightarrow> nat list \<Rightarrow> exn + route_feature" where
  "route_to_geojson lines G route_nodes =
     (case lines G route_nodes of
        Inl e \<Rightarrow> Inl e
      | Inr coords \<Rightarrow>
        (case steps_loop G (node_pairs route_nodes) [] 0 of
           Inl e \<Rightarrow> Inl e
         | Inr (sts, total_len) \<Rightarrow>
             if length coords > 1 then
               Inr \<lparr>distance_m = py_round1 total_len, steps = sts,
                    route_geometry = MultiLineString coords\<rparr>
             else
               (case coords of
                  [] \<Rightarrow> Inl IndexError
                | c # cs \<Rightarrow>
                    Inr \<lparr>distance_m = py_round1 total_len, steps = sts,
                         route_geometry = LineString c\<rparr>)))"

subsection \<open>The route handler\<close>

text \<open>
  What \<^verbatim>\<open>route\<close> calls outside this file: \<open>load_graph\<close> is \<^verbatim>\<open>_load_graph\<close> followed by
  \<^verbatim>\<open>ox.add_edge_lengths\<close> (the graph of the area, from the cache or from the map
  source), \<open>project_graph\<close> is \<^verbatim>\<open>ox.project_graph\<close>, \<open>snap\<close> projects a point given
  as longitude and latitude and returns the nearest node, \<open>astar_path\<close> is
  \<^verbatim>\<open>nx.astar_path\<close>, and \<open>merged_lines\<close> is the shapely part of the assembly.
  The weight handed to the search is the name of an edge attribute or a function.
\<close>

datatype weight = ByAttr string | ByFun "nat \<Rightarrow> nat \<Rightarrow> edge_dict \<Rightarrow> exn + real"

type_synonym bbox = "real \<times> real \<times> real \<times> real"

record env =
  load_graph :: "string option \<Rightarrow> string \<Rightarrow> bbox option \<Rightarrow> bool \<Rightarrow> exn + graph"
  project_graph :: "graph \<Rightarrow> exn + graph"
  snap :: "graph \<Rightarrow> real \<Rightarrow> real \<Rightarrow> exn + nat"
  astar_path :: "graph \<Rightarrow> nat \<Rightarrow> nat \<Rightarrow> (nat \<Rightarrow> nat \<Rightarrow> real) \<Rightarrow> weight \<Rightarrow> exn + nat list"
  merged_lines :: "graph \<Rightarrow> nat list \<Rightarrow> exn + (real \<times> real) list list"

text \<open>The heuristic \<^verbatim>\<open>h\<close>: planar distance in the projected graph.\<close>

definition h :: "graph \<Rightarrow> nat \<Rightarrow> nat \<Rightarrow> real" where
  "h Gp u v =
     (case (node_x (nodes Gp u), node_y (nodes Gp u), node_x (nodes Gp v), node_y (nodes Gp v)) of
        (Some ux, Some uy, Some vx, Some vy) \<Rightarrow> sqrt ((ux - vx)\<^sup>2 + (uy - vy)\<^sup>2)
      | _ \<Rightarrow> 0)"

definition search_weight ::
  "string \<Rightarrow> (real \<times> real) list \<Rightarrow> ped_pt list \<Rightarrow> graph \<Rightarrow> weight" where
  "search_weight route_pref lights_pts ped_pts G =
     (if route_pref = ''short'' then ByAttr ''length''
      else ByFun (edge_weight route_pref lights_pts ped_pts G))"

text \<open>
  The cost the search gives to the step from \<open>u\<close> to \<open>v\<close>. This is the behaviour of
  networkx, not code of this program: in a multigraph a weight given as the name of an
  attribute is the least value of that attribute over the parallel edges, an edge
  without the attribute counting 1; a weight given as a function is called with the two
  nodes and the dictionary of the parallel edges by key, \<^verbatim>\<open>G[u][v]\<close>.
\<close>

fun least_loop :: "pyval \<Rightarrow> pyval list \<Rightarrow> exn + pyval" where
  "least_loop best [] = Inr best"
| "least_loop best (w # ws) =
     (case py_less w best of
        Inl e \<Rightarrow> Inl e
      | Inr b \<Rightarrow> if b then least_loop w ws else least_loop best ws)"

definition attr_cost :: "string \<Rightarrow> attrs list \<Rightarrow> exn + real" where
  "attr_cost k ds =
     (case map (\<lambda>a. attr_get a k (PNum 1)) ds of
        [] \<Rightarrow> Inl ValueError
      | w # ws \<Rightarrow>
          (case least_loop w ws of
             Inl e \<Rightarrow> Inl e
           | Inr (PNum r) \<Rightarrow> Inr r
           | Inr _ \<Rightarrow> Inl TypeError))"

definition keyed_edges :: "graph \<Rightarrow> nat \<Rightarrow> nat \<Rightarrow> edge_dict" where
  "keyed_edges Gp u v = KeyedDict (zip [0..<length (edges Gp u v)] (edges Gp u v))"

definition search_cost :: "weight \<Rightarrow> graph \<Rightarrow> nat \<Rightarrow> nat \<Rightarrow> exn + real" where
  "search_cost w Gp u v =
     (case w of
        ByAttr k \<Rightarrow> attr_cost k (edges Gp u v)
      | ByFun f \<Rightarrow> f u v (keyed_edges Gp u v))"

definition route :: "env \<Rightarrow> RouteRequest \<Rightarrow> state \<Rightarrow> (exn + route_feature) \<times> state" where
  "route E req st =
     (let md = py_lower (mode req)
      in if md \<notin> {''walk'', ''bike'', ''drive''} then (Inl (HTTPException 400), st)
         else
           let no_place = (case place req of None \<Rightarrow> True | Some pl \<Rightarrow> pl = []);
               bb = (if no_place then
                       Some (max (origin_lat req) (dest_lat req) + 5 / 100,
                             min (origin_lat req) (dest_lat req) - 5 / 100,
                             max (origin_lon req) (dest_lon req) + 5 / 100,
                             min (origin_lon req) (dest_lon req) - 5 / 100)
                     else None)
           in (case load_graph E (place req) md bb (force_refresh req) of
                 Inl e \<Rightarrow> (Inl (HTTPException 500), st)
               | Inr G \<Rightarrow>
                   let Gp = (case project_graph E G of Inl e \<Rightarrow> G | Inr g \<Rightarrow> g);
                       route_pref = normalize_pref (req_route_pref req);
                       lights_pts = collect_lights (lighting st);
                       (a, st') = danger_pts (extra_danger req) st;
                       ped_pts = heap st' a
                   in (case snap E Gp (origin_lon req) (origin_lat req) of
                         Inl e \<Rightarrow> (Inl (HTTPException 422), st')
                       | Inr orig \<Rightarrow>
                         (case snap E Gp (dest_lon req) (dest_lat req) of
                            Inl e \<Rightarrow> (Inl (HTTPException 422), st')
                          | Inr dest \<Rightarrow>
                            (case astar_path E Gp orig dest (h Gp)
                                    (search_weight route_pref lights_pts ped_pts G) of
                               Inl e \<Rightarrow>
                                 (if e = NetworkXNoPath then (Inl (HTTPException 404), st')
                                  else (Inl (HTTPException 500), st'))
                             | Inr route_nodes \<Rightarrow>
                                 (route_to_geojson (merged_lines E) G route_nodes, st'))))))"


section \<open>The cost model in the words of the specification\<close>

text \<open>
  The definitions of this section are written after the specification, not after the
  code; the theorems below compare the two. A lighting point contributes a Gaussian
  kernel of its distance to the sample, with a bandwidth of 40 m, and nothing beyond four
  bandwidths.
\<close>

definition light_kernel :: "real \<times> real \<Rightarrow> real \<times> real \<Rightarrow> real" where
  "light_kernel loc q =
     (let d = haversine loc q in if d > 4 * 40 then 0 else exp (- (d\<^sup>2) / (2 * 40\<^sup>2)))"

definition light_density_at :: "(real \<times> real) list \<Rightarrow> real \<times> real \<Rightarrow> real" where
  "light_density_at lights loc = (\<Sum>q\<leftarrow>lights. light_kernel loc q)"

text \<open>
  The density of an edge is the average of the kernel sums at its sample points, and the
  darkness term is \<open>(1 / (\<epsilon> + \<alpha> * density)) * penaltyFactor\<close>.
\<close>

definition spec_density :: "(real \<times> real) list \<Rightarrow> (real \<times> real) list \<Rightarrow> real" where
  "spec_density lights samples =
     (\<Sum>loc\<leftarrow>samples. light_density_at lights loc) / real (length samples)"

definition spec_dark_term :: "(real \<times> real) list \<Rightarrow> (real \<times> real) list \<Rightarrow> real" where
  "spec_dark_term lights samples =
     (let density = spec_density lights samples;
          penaltyFactor = (if density < MIN_DENSITY then 2 else 1)
      in (1 / (SAFE_EPS + SAFE_ALPHA * density)) * penaltyFactor)"

text \<open>
  The sample points the code takes on an edge whose end nodes lie a distance \<open>L > 0\<close>
  apart: with \<open>n = max 1 \<lfloor>L / 15\<rfloor>\<close>, the \<open>n + 1\<close> points that divide the straight
  line between the end nodes into \<open>n\<close> equal parts, both ends included.
\<close>

definition edge_samples :: "real \<Rightarrow> real \<Rightarrow> real \<Rightarrow> real \<Rightarrow> (real \<times> real) list" where
  "edge_samples uy ux vy vx =
     (let L = haversine (uy, ux) (vy, vx);
          n = max 1 \<lfloor>L / 15\<rfloor>
      in map (sample_pt uy ux vy vx n) [0..n])"

text \<open>
  The darkness term as a function of the density.
\<close>

definition darkness_of :: "real \<Rightarrow> real" where
  "darkness_of dens = (1 / (SAFE_EPS + SAFE_ALPHA * dens)) * (if dens < MIN_DENSITY then DARKNESS_PENALTY else 1)"

text \<open>
  A hazard point within 100 m of the sample contributes its squared score times a
  Gaussian kernel with a bandwidth of 30 m.
\<close>

definition hazard_kernel :: "real \<times> real \<Rightarrow> ped_pt \<Rightarrow> real" where
  "hazard_kernel loc p =
     (case p of (py, px, score) \<Rightarrow>
        let d = haversine loc (py, px)
        in if d > 100 then 0 else score\<^sup>2 * exp (- (d\<^sup>2) / (2 * 30\<^sup>2)))"

definition hazard_density_at :: "ped_pt list \<Rightarrow> real \<times> real \<Rightarrow> real" where
  "hazard_density_at peds loc = (\<Sum>p\<leftarrow>peds. hazard_kernel loc p)"

text \<open>
  The hazard term: the weighted average over the samples, plus the fixed penalty when a
  hazard point of high score lies within 100 m of a sample. \<open>high\<close> says which scores
  count as high: above the threshold in the specification, at or above it in the code.
\<close>

definition high_risk_near :: "(real \<Rightarrow> bool) \<Rightarrow> ped_pt list \<Rightarrow> (real \<times> real) list \<Rightarrow> bool" where
  "high_risk_near high peds samples =
     (\<exists>loc \<in> set samples. \<exists>(py, px, score) \<in> set peds. high score \<and> haversine loc (py, px) \<le> 100)"

definition hazard_term_with :: "(real \<Rightarrow> bool) \<Rightarrow> ped_pt list \<Rightarrow> (real \<times> real) list \<Rightarrow> real" where
  "hazard_term_with high peds samples =
     PEDS_WEIGHT * ((\<Sum>loc\<leftarrow>samples. hazard_density_at peds loc) / real (length samples))
     + (if high_risk_near high peds samples then HIGH_RISK_JUMP else 0)"

definition spec_hazard_term :: "ped_pt list \<Rightarrow> (real \<times> real) list \<Rightarrow> real" where
  "spec_hazard_term = hazard_term_with (\<lambda>score. score > 85 / 100)"

definition hazard_term_at_or_above :: "ped_pt list \<Rightarrow> (real \<times> real) list \<Rightarrow> real" where
  "hazard_term_at_or_above = hazard_term_with (\<lambda>score. score \<ge> 85 / 100)"

definition risky_at :: "real \<times> real \<Rightarrow> ped_pt list \<Rightarrow> bool" where
  "risky_at loc peds = (\<exists>(py, px, score) \<in> set peds. score \<ge> 85 / 100 \<and> haversine loc (py, px) \<le> 100)"

text \<open>
  Scores are clamped to \<open>[0, 1]\<close> where points are read; the hazard term is
  characterised for lists without negative scores.
\<close>

definition scores_nonneg :: "ped_pt list \<Rightarrow> bool" where
  "scores_nonneg peds = list_all (\<lambda>(py, px, score). 0 \<le> score) peds"

text \<open>
  Clamping a score to \<open>[0, 1]\<close>.
\<close>

definition clamp01 :: "real \<Rightarrow> real" where
  "clamp01 s = min 1 (max 0 s)"

definition clamp_point :: "ped_pt \<Rightarrow> ped_pt" where
  "clamp_point p = (case p of (lat, lon, s) \<Rightarrow> (lat, lon, clamp01 s))"

text \<open>
  The points of a payload of \<^verbatim>\<open>POST /hazards\<close>. In a feature collection these are
  the Point features: a feature whose geometry has the type \<^verbatim>\<open>Point\<close> and a position
  of at least two numbers (longitude first), with the score under \<^verbatim>\<open>safety_score\<close>,
  else under \<^verbatim>\<open>score\<close>, else 1. In a list they are the entries, an entry without a
  score having the score 1.
\<close>

definition feature_score :: "feature \<Rightarrow> real option" where
  "feature_score f =
     (case p_safety_score f of
        Some (PNum s) \<Rightarrow> Some s
      | Some _ \<Rightarrow> None
      | None \<Rightarrow>
          (case p_score f of
             Some (PNum s) \<Rightarrow> Some s
           | Some _ \<Rightarrow> None
           | None \<Rightarrow> Some 1))"

definition feature_point :: "feature \<Rightarrow> ped_pt option" where
  "feature_point f =
     (if f_type f = Some ''Point'' then
        (case f_coords f of
           Some (lon # lat # rest) \<Rightarrow>
             (case feature_score f of None \<Rightarrow> None | Some s \<Rightarrow> Some (lat, lon, s))
         | _ \<Rightarrow> None)
      else None)"

definition entry_point :: "hazard_entry \<Rightarrow> ped_pt option" where
  "entry_point hp =
     (case hp of
        EntryObj hz \<Rightarrow> Some (hp_lat hz, hp_lon hz, hp_score hz)
      | EntryDict d \<Rightarrow>
          (case (d ''lat'', d ''lon'') of
             (Some (PNum lat), Some (PNum lon)) \<Rightarrow>
               (case d ''score'' of
                  None \<Rightarrow> Some (lat, lon, 1)
                | Some (PNum s) \<Rightarrow> Some (lat, lon, s)
                | Some _ \<Rightarrow> None)
           | _ \<Rightarrow> None))"

definition payload_points :: "payload \<Rightarrow> ped_pt list" where
  "payload_points pl =
     (case pl of
        PayloadList hps \<Rightarrow> List.map_filter entry_point hps
      | PayloadDict None \<Rightarrow> []
      | PayloadDict (Some feats) \<Rightarrow> List.map_filter feature_point feats)"

text \<open>
  The stored form of a point: a Point feature at the position of the point whose only
  property is \<^verbatim>\<open>score\<close>, the score of the point clamped to \<open>[0, 1]\<close>.
\<close>

definition stored_point :: "ped_pt \<Rightarrow> feature" where
  "stored_point p =
     (case p of (lat, lon, s) \<Rightarrow>
        \<lparr>f_type = Some ''Point'', f_coords = Some [lon, lat],
         p_safety_score = None, p_score = Some (PNum (clamp01 s))\<rparr>)"

section \<open>Example inputs\<close>

text \<open>
  A graph whose nodes all lie at latitude 0, longitude 0; a graph with node 0 there
  and every other node about 11 m to the east; that graph with one edge from node 0
  to node 1, once 5 cm and once 250 m long; one hazard point with a score of exactly
  0.85 at the position of node 0.
\<close>

definition graph_point :: graph where
  "graph_point = \<lparr>nodes = (\<lambda>u. \<lparr>node_y = Some 0, node_x = Some 0\<rparr>), edges = (\<lambda>u v. [])\<rparr>"

definition graph_segment :: graph where
  "graph_segment =
     \<lparr>nodes = (\<lambda>u. if u = 0 then \<lparr>node_y = Some 0, node_x = Some 0\<rparr>
                    else \<lparr>node_y = Some 0, node_x = Some (1 / 10000)\<rparr>),
      edges = (\<lambda>u v. [])\<rparr>"

definition graph_alley :: graph where
  "graph_alley =
     graph_segment\<lparr>edges := (\<lambda>u v. if u = 0 \<and> v = 1 then [[''length'' \<mapsto> PNum (1 / 20)]] else [])\<rparr>"

definition graph_street :: graph where
  "graph_street =
     graph_segment\<lparr>edges := (\<lambda>u v. if u = 0 \<and> v = 1 then [[''length'' \<mapsto> PNum 250]] else [])\<rparr>"

definition borderline_peds :: "ped_pt list" where
  "borderline_peds = [(0, 0, 85 / 100)]"

text \<open>
  A state whose hazards file holds one point, with no pedestrians file and nothing
  cached; the same state with an empty pedestrians file; a danger point of a request and
  a payload of one point, both with the score 1.7.
\<close>

definition stored_state :: state where
  "stored_state =
     \<lparr>ped_files = [None, None],
      hazards_file = Some (Features [saved_feature (10, 20, 1 / 2)]),
      lighting = Inr [],
      heap = (\<lambda>a. []),
      next_addr = 0,
      ped_cache_pts = None,
      ped_cache_mtime = None\<rparr>"

definition stored_state_peds :: state where
  "stored_state_peds = stored_state\<lparr>ped_files := [Some (1, Features []), None]\<rparr>"

definition extra_point :: DangerPoint where
  "extra_point = \<lparr>dp_lat = 1, dp_lon = 2, dp_score = 17 / 10\<rparr>"

definition posted_points :: payload where
  "posted_points = PayloadList [EntryObj \<lparr>hp_lat = 1, hp_lon = 2, hp_score = 17 / 10\<rparr>]"

section \<open>Properties of the edge cost\<close>

subsection \<open>The loops as sums\<close>

lemma light_kernel_nonneg: "0 \<le> light_kernel loc q"
  by (simp add: light_kernel_def Let_def)

lemma light_loop_sum: "light_loop loc ls s = s + light_density_at ls loc"
  by (induction ls arbitrary: s)
     (auto simp: light_density_at_def light_kernel_def Let_def SAFE_SIGMA_def inv_twosig2_def power2_eq_square)

lemma density_loop_sum:
  "density_loop lights uy ux vy vx n is acc =
     acc + (\<Sum>i\<leftarrow>is. light_density_at lights (sample_pt uy ux vy vx n i))"
  by (induction "is" arbitrary: acc) (auto simp: Let_def light_loop_sum)

lemma light_density_at_nonneg: "0 \<le> light_density_at L loc"
  unfolding light_density_at_def by (rule sum_list_nonneg) (auto simp: light_kernel_nonneg)

lemma light_density_at_mset:
  "light_density_at L loc = sum_mset (image_mset (light_kernel loc) (mset L))"
proof -
  have "sum_mset (mset (map (light_kernel loc) L)) = sum_list (map (light_kernel loc) L)"
    by (rule sum_mset_sum_list)
  then show ?thesis by (simp add: light_density_at_def)
qed

lemma light_density_at_mono:
  assumes "mset L' \<subseteq># mset L"
  shows "light_density_at L' loc \<le> light_density_at L loc"
proof -
  obtain D where D: "mset L = mset L' + D"
    using assms by (metis mset_subset_eq_exists_conv)
  obtain Ds where Ds: "mset Ds = D"
    using ex_mset by blast
  have "mset L = mset (L' @ Ds)" by (simp add: D Ds)
  then have "light_density_at L loc = light_density_at (L' @ Ds) loc"
    by (simp only: light_density_at_mset)
  also have "\<dots> = light_density_at L' loc + light_density_at Ds loc"
    by (simp add: light_density_at_def)
  finally show ?thesis using light_density_at_nonneg [of Ds loc] by linarith
qed

lemma length_edge_samples:
  "length (edge_samples uy ux vy vx) = nat (max 1 \<lfloor>haversine (uy, ux) (vy, vx) / 15\<rfloor> + 1)"
  by (simp add: edge_samples_def Let_def)

lemma edge_density_eq:
  "edge_density lights G u v =
     (case node_coords G u v of
        None \<Rightarrow> 0
      | Some (uy, ux, vy, vx) \<Rightarrow>
          if haversine (uy, ux) (vy, vx) \<le> 0 then 0
          else spec_density lights (edge_samples uy ux vy vx))"
proof (cases "node_coords G u v")
  case None
  then show ?thesis by (simp add: edge_density_def)
next
  case (Some c)
  obtain uy ux vy vx where c: "c = (uy, ux, vy, vx)" by (cases c) auto
  show ?thesis
  proof (cases "haversine (uy, ux) (vy, vx) \<le> 0")
    case True
    then show ?thesis using Some c by (simp add: edge_density_def)
  next
    case False
    define n where "n = max 1 \<lfloor>haversine (uy, ux) (vy, vx) / 15\<rfloor>"
    have n: "max 1 (py_int (haversine (uy, ux) (vy, vx) / SAMPLE_STEP)) = n"
      using False by (simp add: py_int_def SAMPLE_STEP_def n_def)
    have n1: "1 \<le> n" by (simp add: n_def)
    have len: "real (length (edge_samples uy ux vy vx)) = real_of_int (n + 1)"
      using n1 by (simp add: length_edge_samples n_def[symmetric])
    have sd: "spec_density lights (edge_samples uy ux vy vx) =
        (\<Sum>i\<leftarrow>[0..n]. light_density_at lights (sample_pt uy ux vy vx n i)) / real_of_int (n + 1)"
      unfolding spec_density_def len
      by (simp add: edge_samples_def n_def[symmetric] comp_def)
    show ?thesis
    proof (cases "lights = []")
      case True
      then show ?thesis using Some c False
        by (simp add: edge_density_def spec_density_def light_density_at_def)
    next
      case nonempty: False
      then show ?thesis using Some c False n sd
        by (simp add: edge_density_def Let_def density_loop_sum)
    qed
  qed
qed

lemma spec_density_nonneg: "0 \<le> spec_density lights samples"
  unfolding spec_density_def
  by (intro divide_nonneg_nonneg sum_list_nonneg) (auto simp: light_density_at_nonneg)

lemma spec_density_mono:
  assumes "mset L' \<subseteq># mset L"
  shows "spec_density L' samples \<le> spec_density L samples"
  unfolding spec_density_def
  by (intro divide_right_mono sum_list_mono light_density_at_mono assms) simp

lemma edge_density_nonneg: "0 \<le> edge_density lights G u v"
  by (simp add: edge_density_eq spec_density_nonneg split: option.splits)

lemma edge_density_mono:
  assumes "mset L' \<subseteq># mset L"
  shows "edge_density L' G u v \<le> edge_density L G u v"
  by (simp add: edge_density_eq spec_density_mono assms split: option.splits)

lemma darkness_of_antimono:
  assumes "0 \<le> d'" "d' \<le> d"
  shows "darkness_of d \<le> darkness_of d'"
proof -
  have pos: "0 < SAFE_EPS + SAFE_ALPHA * d'" "0 < SAFE_EPS + SAFE_ALPHA * d"
    using assms by (auto simp: SAFE_EPS_def SAFE_ALPHA_def)
  have le: "SAFE_EPS + SAFE_ALPHA * d' \<le> SAFE_EPS + SAFE_ALPHA * d"
    using assms by (simp add: SAFE_ALPHA_def)
  have inv: "1 / (SAFE_EPS + SAFE_ALPHA * d) \<le> 1 / (SAFE_EPS + SAFE_ALPHA * d')"
    using pos le by (simp add: frac_le)
  have pen: "(if d < MIN_DENSITY then DARKNESS_PENALTY else 1) \<le> (if d' < MIN_DENSITY then DARKNESS_PENALTY else 1)"
    using assms by (auto simp: DARKNESS_PENALTY_def)
  have p0: "0 \<le> (if d < MIN_DENSITY then DARKNESS_PENALTY else (1::real))"
    by (simp add: DARKNESS_PENALTY_def)
  have i0: "0 \<le> 1 / (SAFE_EPS + SAFE_ALPHA * d')" using pos by simp
  show ?thesis unfolding darkness_of_def
    by (rule mult_mono [OF inv pen i0 p0])
qed

lemma dark_term_darkness_of: "dark_term lights G u v = darkness_of (edge_density lights G u v)"
  by (simp add: dark_term_def darkness_of_def Let_def)

lemma ped_loop_eq:
  "scores_nonneg ps \<Longrightarrow>
   ped_loop loc ps (s, peak) =
     (s + hazard_density_at ps loc, if risky_at loc ps then 1 else peak)"
proof (induction ps arbitrary: s peak)
  case Nil
  then show ?case by (simp add: hazard_density_at_def risky_at_def)
next
  case (Cons p ps)
  obtain py px score where p: "p = (py, px, score)" by (cases p) auto
  have nn: "0 \<le> score" and rest: "scores_nonneg ps"
    using Cons.prems by (auto simp: scores_nonneg_def p)
  note IH = Cons.IH [OF rest]
  show ?case
  proof (cases "score \<le> 0")
    case True
    then have z: "score = 0" using nn by simp
    show ?thesis
      by (simp add: p z IH hazard_density_at_def hazard_kernel_def risky_at_def Let_def)
  next
    case pos: False
    then have pw: "score powr PEDS_GAMMA = score\<^sup>2"
      by (simp add: PEDS_GAMMA_def)
    show ?thesis
    proof (cases "haversine loc (py, px) > 100")
      case True
      then show ?thesis using pos
        by (simp add: p IH hazard_density_at_def hazard_kernel_def risky_at_def Let_def PEDS_RADIUS_def)
    next
      case False
      then show ?thesis using pos pw
        by (simp add: p IH hazard_density_at_def hazard_kernel_def risky_at_def Let_def
            PEDS_RADIUS_def HIGH_RISK_RADIUS_def HIGH_RISK_THRESHOLD_def ped_inv_twosig2_def
            PEDS_SIGMA_def power2_eq_square)
    qed
  qed
qed

lemma ped_stats_loop_eq:
  "scores_nonneg peds \<Longrightarrow>
   ped_stats_loop peds uy ux vy vx n is (acc, peak) =
     (acc + (\<Sum>i\<leftarrow>is. hazard_density_at peds (sample_pt uy ux vy vx n i)),
      if (\<exists>i \<in> set is. risky_at (sample_pt uy ux vy vx n i) peds) then 1 else peak)"
  by (induction "is" arbitrary: acc peak) (auto simp: ped_loop_eq Let_def)

lemma high_risk_near_samples:
  "high_risk_near (\<lambda>score. score \<ge> 85 / 100) peds (map f is) = (\<exists>i \<in> set is. risky_at (f i) peds)"
  by (auto simp: high_risk_near_def risky_at_def)

lemma ped_term_eq:
  assumes "scores_nonneg peds"
  shows "ped_term peds G u v =
     (case node_coords G u v of
        None \<Rightarrow> 0
      | Some (uy, ux, vy, vx) \<Rightarrow>
          if haversine (uy, ux) (vy, vx) \<le> 0 then 0
          else hazard_term_at_or_above peds (edge_samples uy ux vy vx))"
proof (cases "node_coords G u v")
  case None
  then show ?thesis by (simp add: ped_term_def edge_ped_stats_def)
next
  case (Some c)
  obtain uy ux vy vx where c: "c = (uy, ux, vy, vx)" by (cases c) auto
  show ?thesis
  proof (cases "haversine (uy, ux) (vy, vx) \<le> 0")
    case True
    then show ?thesis using Some c by (simp add: ped_term_def edge_ped_stats_def)
  next
    case False
    define n where "n = max 1 \<lfloor>haversine (uy, ux) (vy, vx) / 15\<rfloor>"
    have n: "max 1 (py_int (haversine (uy, ux) (vy, vx) / SAMPLE_STEP)) = n"
      using False by (simp add: py_int_def SAMPLE_STEP_def n_def)
    have n1: "1 \<le> n" by (simp add: n_def)
    have len: "real (length (edge_samples uy ux vy vx)) = real_of_int (n + 1)"
      using n1 by (simp add: length_edge_samples n_def[symmetric])
    have es: "edge_samples uy ux vy vx = map (sample_pt uy ux vy vx n) [0..n]"
      by (simp add: edge_samples_def n_def Let_def)
    have ht: "hazard_term_at_or_above peds (edge_samples uy ux vy vx) =
        PEDS_WEIGHT * ((\<Sum>i\<leftarrow>[0..n]. hazard_density_at peds (sample_pt uy ux vy vx n i)) / real_of_int (n + 1))
        + (if (\<exists>i \<in> set [0..n]. risky_at (sample_pt uy ux vy vx n i) peds) then HIGH_RISK_JUMP else 0)"
      unfolding hazard_term_at_or_above_def hazard_term_with_def len
      unfolding es high_risk_near_samples
      by (simp add: comp_def)
    show ?thesis
    proof (cases "peds = []")
      case True
      have "hazard_term_at_or_above [] (edge_samples uy ux vy vx) = 0"
        by (simp add: hazard_term_at_or_above_def hazard_term_with_def high_risk_near_def
            hazard_density_at_def)
      then show ?thesis using Some c False True
        by (simp add: ped_term_def edge_ped_stats_def)
    next
      case nonempty: False
      have "edge_ped_stats peds G u v =
          ((\<Sum>i\<leftarrow>[0..n]. hazard_density_at peds (sample_pt uy ux vy vx n i)) / real_of_int (n + 1),
           if (\<exists>i \<in> set [0..n]. risky_at (sample_pt uy ux vy vx n i) peds) then 1 else 0)"
        using Some c False n nonempty
        by (simp add: edge_ped_stats_def Let_def ped_stats_loop_eq [OF assms])
      then show ?thesis using Some c False
        by (simp add: ped_term_def ht)
    qed
  qed
qed

lemma first_sample: "sample_pt uy ux vy vx n 0 = (uy, ux)"
  by (simp add: sample_pt_def)

lemma first_sample_in: "(uy, ux) \<in> set (edge_samples uy ux vy vx)"
proof -
  have "(0::int) \<in> set [0..max 1 \<lfloor>haversine (uy, ux) (vy, vx) / 15\<rfloor>]" by simp
  then have "sample_pt uy ux vy vx (max 1 \<lfloor>haversine (uy, ux) (vy, vx) / 15\<rfloor>) 0
      \<in> set (edge_samples uy ux vy vx)"
    unfolding edge_samples_def Let_def set_map by (rule imageI)
  then show ?thesis by (simp add: first_sample)
qed

subsection \<open>Distances of the example inputs\<close>

lemma haversine_same: "haversine p p = 0"
  by (simp add: haversine_def atan2_def)

lemma haversine_equator_example: "0 < haversine (0, 0) (0, 1 / 10000)"
proof -
  define t :: real where "t = pi / 3600000"
  have t: "0 < t" "t < pi / 2" by (simp_all add: t_def)
  have s: "0 < sin t" using t by (intro sin_gt_zero) auto
  have c: "0 < cos t" using t by (intro cos_gt_zero_pi) auto
  have a: "(sin t)\<^sup>2 = 1 - (cos t)\<^sup>2" by (simp add: sin_squared_eq)
  have sq: "sqrt (1 - (sin t)\<^sup>2) = cos t" using c by (simp add: a)
  have "haversine (0, 0) (0, 1 / 10000) = 6371000 * (2 * atan2 (sin t) (cos t))"
    using s sq by (simp add: haversine_def radians_def t_def Let_def)
  moreover have "0 < atan2 (sin t) (cos t)"
    using s c by (simp add: atan2_def)
  ultimately show ?thesis by simp
qed

lemma node_coords_graph_point: "node_coords graph_point u v = Some (0, 0, 0, 0)"
  by (simp add: node_coords_def graph_point_def)

lemma node_coords_graph_segment: "node_coords graph_segment 0 (Suc 0) = Some (0, 0, 0, 1 / 10000)"
  by (simp add: node_coords_def graph_segment_def)

subsection \<open>The cost floor\<close>

lemma keyed_dict_length: "dict_get_length (keyed_edges Gp u v) = PNum 1"
  by (simp add: dict_get_length_def keyed_edges_def)

lemma safe_search_cost:
  "search_cost (search_weight ''safe'' lights_pts ped_pts G) Gp u v =
     Inr (if lights_pts \<noteq> [] then max (1 / 10) (dark_term lights_pts G u v + ped_term ped_pts G u v)
          else 1)"
  by (simp add: search_cost_def search_weight_def edge_weight_def keyed_dict_length)

text \<open>
  Claim C2 says that the edge cost used by the search is at least 0.1 under every
  policy. Claim C2 as amended: under the policy \<^verbatim>\<open>safe\<close>, for every graph, every edge
  and every set of lighting and hazard points, the search gets a cost for the edge, and
  the cost is at least 0.1.
\<close>

theorem safe_cost_floor:
  "\<exists>c. search_cost (search_weight ''safe'' lights_pts ped_pts G) Gp u v = Inr c \<and> 1 / 10 \<le> c"
proof (cases "lights_pts = []")
  case True
  then have "search_cost (search_weight ''safe'' lights_pts ped_pts G) Gp u v = Inr 1"
    by (simp add: safe_search_cost)
  moreover have "1 / 10 \<le> (1::real)" by simp
  ultimately show ?thesis by blast
next
  case False
  then have "search_cost (search_weight ''safe'' lights_pts ped_pts G) Gp u v =
      Inr (max (1 / 10) (dark_term lights_pts G u v + ped_term ped_pts G u v))"
    by (simp add: safe_search_cost)
  moreover have "1 / 10 \<le> max (1 / 10) (dark_term lights_pts G u v + ped_term ped_pts G u v)"
    by (rule max.cobounded1)
  ultimately show ?thesis by blast
qed

text \<open>
  Claim C2 as stated fails under the policy \<^verbatim>\<open>short\<close>: the weight is the attribute
  \<^verbatim>\<open>length\<close>, and the cost of an edge 5 cm long is 0.05.
\<close>

theorem short_cost_counterexample:
  "search_cost (search_weight ''short'' [] [] graph_alley) graph_alley 0 1 = Inr (1 / 20)"
  by (simp add: search_cost_def search_weight_def attr_cost_def attr_get_def graph_alley_def)

subsection \<open>The darkness term\<close>

text \<open>
  Claim C6 as amended: for an edge whose end nodes both have coordinates and lie a
  positive great-circle distance apart, the darkness term is
  \<open>(1 / (\<epsilon> + \<alpha> * density)) * penaltyFactor\<close>, where density is the average over the
  sample points of \<open>edge_samples\<close> of the sum over all lighting points of the Gaussian
  kernel with bandwidth 40 m (nothing beyond 160 m), and penaltyFactor is 2 exactly when
  the density is below the threshold, else 1. For an edge with a missing coordinate or
  with end nodes at distance 0 the density is taken as 0 and the term is \<open>2 / \<epsilon>\<close>.
\<close>

theorem dark_term_formula:
  "dark_term lights G u v =
     (case node_coords G u v of
        None \<Rightarrow> 2 / SAFE_EPS
      | Some (uy, ux, vy, vx) \<Rightarrow>
          if haversine (uy, ux) (vy, vx) \<le> 0 then 2 / SAFE_EPS
          else spec_dark_term lights (edge_samples uy ux vy vx))"
  by (simp add: dark_term_def edge_density_eq spec_dark_term_def Let_def MIN_DENSITY_def DARKNESS_PENALTY_def
      split: option.splits)

text \<open>
  Claim C6 as stated fails on an edge whose end nodes coincide (a loop): every sample
  point of such an edge is the node itself, so with a lighting point at the node the
  formula of the claim gives the density 1 and the term \<open>1 / (\<epsilon> + 3)\<close>, while the code
  returns the density 0 and the term \<open>2 / \<epsilon>\<close>.
\<close>

theorem dark_term_degenerate_counterexample:
  "dark_term [(0, 0)] graph_point 0 0 = 2000000 \<and>
   spec_dark_term [(0, 0)] [(0, 0)] = 1000000 / 3000001"
proof
  show "dark_term [(0, 0)] graph_point 0 0 = 2000000"
    by (simp add: dark_term_def edge_density_def node_coords_graph_point haversine_same
        MIN_DENSITY_def DARKNESS_PENALTY_def SAFE_EPS_def)
  show "spec_dark_term [(0, 0)] [(0, 0)] = 1000000 / 3000001"
    by (simp add: spec_dark_term_def spec_density_def light_density_at_def light_kernel_def
        haversine_same MIN_DENSITY_def SAFE_EPS_def SAFE_ALPHA_def)
qed

text \<open>
  Claim C8: removing lighting points never decreases the darkness term of an edge.
  \<open>L'\<close> is \<open>L\<close> with some of its points removed (as multisets, since a point can occur
  more than once).
\<close>

theorem dark_term_monotone:
  "mset L' \<subseteq># mset L \<Longrightarrow> dark_term L G u v \<le> dark_term L' G u v"
  unfolding dark_term_darkness_of
  by (rule darkness_of_antimono [OF edge_density_nonneg edge_density_mono])

text \<open>
  The theorem at an edge of \<open>graph_segment\<close>, removing one of two lighting points.
\<close>

theorem dark_term_monotone_witness:
  "dark_term [(0, 0), (0, 1)] graph_segment 0 1 \<le> dark_term [(0, 1)] graph_segment 0 1"
  using dark_term_monotone [of "[(0, 1)]" "[(0, 0), (0, 1)]" graph_segment 0 1]
  by simp

subsection \<open>The hazard term\<close>

text \<open>
  Claim C7 as amended: for a hazard list without negative scores and an edge whose end
  nodes both have coordinates and lie a positive distance apart, the hazard term is the
  average over the sample points of the sum, over the hazard points within 100 m of the
  sample, of \<open>score\<^sup>2 * exp (- d\<^sup>2 / (2 * 30\<^sup>2))\<close>, times the weight 6, plus the penalty 20
  exactly when some hazard point with a score at or above 0.85 lies within 100 m of some
  sample point. For an edge with a missing coordinate or with end nodes at distance 0
  the term is 0.
\<close>

theorem ped_term_formula:
  assumes "scores_nonneg peds"
  shows "ped_term peds G u v =
     (case node_coords G u v of
        None \<Rightarrow> 0
      | Some (uy, ux, vy, vx) \<Rightarrow>
          if haversine (uy, ux) (vy, vx) \<le> 0 then 0
          else hazard_term_at_or_above peds (edge_samples uy ux vy vx))"
  using assms by (rule ped_term_eq)

text \<open>
  The theorem at an edge of \<open>graph_segment\<close> with one hazard point.
\<close>

theorem ped_term_formula_witness:
  "ped_term borderline_peds graph_segment 0 1 =
     hazard_term_at_or_above borderline_peds (edge_samples 0 0 0 (1 / 10000))"
proof -
  have nn: "scores_nonneg borderline_peds"
    by (simp add: scores_nonneg_def borderline_peds_def)
  have pos: "\<not> haversine (0, 0) (0, 1 / 10000) \<le> 0"
    using haversine_equator_example by simp
  show ?thesis
    using ped_term_formula [OF nn, of graph_segment 0 1] pos
    by (simp add: node_coords_graph_segment)
qed

text \<open>
  Claim C7 as stated fails for a hazard point whose score is exactly 0.85, at the
  position of an end node: no score is above 0.85, so the claim adds no penalty, while
  the code (\<^verbatim>\<open>score >= HIGH_RISK_THRESHOLD\<close>) adds 20.
\<close>

theorem ped_term_threshold_counterexample:
  "ped_term borderline_peds graph_segment 0 1 =
     spec_hazard_term borderline_peds (edge_samples 0 0 0 (1 / 10000)) + 20"
proof -
  have nn: "scores_nonneg borderline_peds"
    by (simp add: scores_nonneg_def borderline_peds_def)
  have pos: "\<not> haversine (0, 0) (0, 1 / 10000) \<le> 0"
    using haversine_equator_example by simp
  have near: "high_risk_near (\<lambda>score. score \<ge> 85 / 100) borderline_peds (edge_samples 0 0 0 (1 / 10000))"
    unfolding high_risk_near_def
    using first_sample_in [of 0 0 0 "1 / 10000"]
    by (auto simp: borderline_peds_def haversine_same intro!: bexI [of _ "(0, 0)"])
  have far: "\<not> high_risk_near (\<lambda>score. score > 85 / 100) borderline_peds (edge_samples 0 0 0 (1 / 10000))"
    by (simp add: high_risk_near_def borderline_peds_def)
  show ?thesis
    using pos near far
    by (simp add: ped_term_eq [OF nn] node_coords_graph_segment hazard_term_at_or_above_def
        spec_hazard_term_def hazard_term_with_def HIGH_RISK_JUMP_def)
qed

section \<open>Properties of the handlers\<close>

subsection \<open>The policy alias\<close>

lemma py_lower_fast: "py_lower ''fast'' = ''fast''"
  by code_simp

lemma py_lower_short: "py_lower ''short'' = ''short''"
  by code_simp

lemma py_lower_FAST: "py_lower ''FAST'' = ''fast''"
  by code_simp

lemma normalize_pref_fast: "normalize_pref ''fast'' = ''short''"
  by (simp add: normalize_pref_def py_lower_fast)

lemma normalize_pref_short: "normalize_pref ''short'' = ''short''"
  by (simp add: normalize_pref_def py_lower_short)

text \<open>
  Claim C9: a request with the policy \<^verbatim>\<open>fast\<close> produces the same result as the same
  request with the policy \<^verbatim>\<open>short\<close>: the same route or the same error, and the same
  state afterwards, whatever the graph source, the snapping and the search return.
\<close>

theorem fast_is_short:
  "route E (req\<lparr>req_route_pref := ''fast''\<rparr>) st = route E (req\<lparr>req_route_pref := ''short''\<rparr>) st"
  by (simp add: route_def Let_def normalize_pref_fast normalize_pref_short
      cong: if_cong sum.case_cong option.case_cong)

subsection \<open>Routing without lighting points\<close>

lemma collect_lights_unavailable: "collect_lights (Inl e) = []"
  by (simp add: collect_lights_def)

lemma new_list_lighting:
  "new_list pts (st\<lparr>lighting := x\<rparr>) =
     (fst (new_list pts st), (snd (new_list pts st))\<lparr>lighting := x\<rparr>)"
  by (simp add: new_list_def)

lemma read_pedestrians_lighting:
  "read_pedestrians m c (st\<lparr>lighting := x\<rparr>) =
     (fst (read_pedestrians m c st), (snd (read_pedestrians m c st))\<lparr>lighting := x\<rparr>)"
proof (cases c)
  case Unreadable
  then show ?thesis by (simp add: read_pedestrians_def new_list_def)
next
  case (Features feats)
  then show ?thesis
    by (cases "pedestrians_loop feats []") (simp_all add: read_pedestrians_def new_list_def)
qed


lemma load_pedestrians_lighting:
  "load_pedestrians (st\<lparr>lighting := x\<rparr>) =
     (fst (load_pedestrians st), (snd (load_pedestrians st))\<lparr>lighting := x\<rparr>)"
proof (cases "first_existing (ped_files st)")
  case None
  then show ?thesis by (simp add: load_pedestrians_def new_list_def)
next
  case (Some p)
  obtain m c where p: "p = (m, c)" by (cases p) auto
  show ?thesis
  proof (cases "ped_cache_pts st")
    case None
    then show ?thesis using Some p
      by (simp add: load_pedestrians_def read_pedestrians_lighting)
  next
    case (Some a)
    then show ?thesis using \<open>first_existing (ped_files st) = Some p\<close> p
      by (simp add: load_pedestrians_def read_pedestrians_lighting)
  qed
qed

lemma load_hazards_lighting: "load_hazards (st\<lparr>lighting := x\<rparr>) = load_hazards st"
  by (simp add: load_hazards_def)

lemma danger_pts_lighting:
  "danger_pts extra (st\<lparr>lighting := x\<rparr>) =
     (fst (danger_pts extra st), (snd (danger_pts extra st))\<lparr>lighting := x\<rparr>)"
proof -
  obtain a s where l: "load_pedestrians st = (a, s)" by (cases "load_pedestrians st") auto
  have lx: "load_pedestrians (st\<lparr>lighting := x\<rparr>) = (a, s\<lparr>lighting := x\<rparr>)"
    by (simp add: load_pedestrians_lighting l)
  show ?thesis
    by (simp add: danger_pts_def l lx load_hazards_lighting Let_def)
qed


lemma route_lighting:
  assumes cl: "collect_lights x = collect_lights y"
  shows "fst (route E req (st\<lparr>lighting := x\<rparr>)) = fst (route E req (st\<lparr>lighting := y\<rparr>))"
proof -
  obtain a s where d: "danger_pts (extra_danger req) st = (a, s)"
    by (cases "danger_pts (extra_danger req) st") auto
  have dx: "danger_pts (extra_danger req) (st\<lparr>lighting := x\<rparr>) = (a, s\<lparr>lighting := x\<rparr>)"
    by (simp add: danger_pts_lighting d)
  have dy: "danger_pts (extra_danger req) (st\<lparr>lighting := y\<rparr>) = (a, s\<lparr>lighting := y\<rparr>)"
    by (simp add: danger_pts_lighting d)
  show ?thesis
  proof (cases "py_lower (mode req) \<notin> {''walk'', ''bike'', ''drive''}")
    case True
    then show ?thesis by (simp add: route_def Let_def)
  next
    case md: False
    define bb where "bb = (if (case place req of None \<Rightarrow> True | Some pl \<Rightarrow> pl = []) then
                       Some (max (origin_lat req) (dest_lat req) + 5 / 100,
                             min (origin_lat req) (dest_lat req) - 5 / 100,
                             max (origin_lon req) (dest_lon req) + 5 / 100,
                             min (origin_lon req) (dest_lon req) - 5 / 100)
                     else None)"
    show ?thesis
    proof (cases "load_graph E (place req) (py_lower (mode req)) bb (force_refresh req)")
      case (Inl e)
      then show ?thesis using md unfolding route_def Let_def bb_def by simp
    next
      case (Inr G)
      define Gp where "Gp = (case project_graph E G of Inl e \<Rightarrow> G | Inr g \<Rightarrow> g)"
      show ?thesis
      proof (cases "snap E Gp (origin_lon req) (origin_lat req)")
        case (Inl e)
        then show ?thesis using md Inr unfolding route_def Let_def bb_def Gp_def
          by (simp add: dx dy)
      next
        case orig: (Inr orig)
        show ?thesis
        proof (cases "snap E Gp (dest_lon req) (dest_lat req)")
          case (Inl e)
          then show ?thesis using md Inr orig unfolding route_def Let_def bb_def Gp_def
            by (simp add: dx dy)
        next
          case dest: (Inr dest)
          show ?thesis using md Inr orig dest unfolding route_def Let_def bb_def Gp_def
            by (simp add: dx dy cl split: sum.splits)
        qed
      qed
    qed
  qed
qed

text \<open>
  Claim C3 says that without lighting points the cost of an edge under the policy
  \<^verbatim>\<open>safe\<close> is the length of the edge. The request does not fail, as \<open>route_lighting\<close>
  shows, but the cost is not the length: \<^verbatim>\<open>_edge_weight\<close> looks \<^verbatim>\<open>"length"\<close> up in the
  dictionary of the parallel edges by key, finds nothing and takes the default. For a
  lighting collection that failed to load, the edge of \<open>graph_street\<close> costs 1 under
  \<^verbatim>\<open>safe\<close>, while its length, which is its cost under \<^verbatim>\<open>short\<close>, is 250.
\<close>

theorem safe_without_lights_costs_one:
  "search_cost (search_weight ''safe'' (collect_lights (Inl OtherException)) [] graph_street)
     graph_street 0 1 = Inr 1 \<and>
   search_cost (search_weight ''short'' (collect_lights (Inl OtherException)) [] graph_street)
     graph_street 0 1 = Inr 250"
proof
  show "search_cost (search_weight ''safe'' (collect_lights (Inl OtherException)) [] graph_street)
     graph_street 0 1 = Inr 1"
    by (simp add: safe_search_cost collect_lights_unavailable)
  show "search_cost (search_weight ''short'' (collect_lights (Inl OtherException)) [] graph_street)
     graph_street 0 1 = Inr 250"
    by (simp add: search_cost_def search_weight_def attr_cost_def attr_get_def graph_street_def)
qed

text \<open>Without lighting points every edge of every graph costs 1 under \<^verbatim>\<open>safe\<close>.\<close>

lemma safe_without_lights_any_edge:
  "collect_lights gj_l = [] \<Longrightarrow>
   search_cost (search_weight ''safe'' (collect_lights gj_l) ped_pts G) Gp u v = Inr 1"
  by (simp add: safe_search_cost)

subsection \<open>Clamping of scores\<close>

text \<open>
  Each of the four places clamps to \<open>[0, 1]\<close>.
\<close>

lemma clamp_load_hazards_eq: "clamp_load_hazards s = clamp01 s"
  by (simp add: clamp_load_hazards_def clamp01_def)

lemma clamp_save_hazards_eq: "clamp_save_hazards s = clamp01 s"
  by (simp add: clamp_save_hazards_def clamp01_def)

lemma clamp_steps_eq: "clamp_steps s = clamp01 s"
  by (simp add: clamp_steps_def clamp01_def Let_def)

lemma clamp01_idem: "clamp01 (clamp01 s) = clamp01 s"
  by (simp add: clamp01_def)

lemma clamp01_range: "0 \<le> clamp01 s \<and> clamp01 s \<le> 1"
  by (simp add: clamp01_def)

lemma clamp01_examples: "clamp01 (17 / 10) = 1 \<and> clamp01 (- (3 / 10)) = 0"
  by (simp add: clamp01_def)

subsection \<open>Replacing the stored hazards\<close>

lemma entry_item_point:
  assumes ok: "entry_item hp = Inr it"
  shows "entry_point hp = Some it"
proof (cases hp)
  case (EntryObj hz)
  then show ?thesis using ok by (auto simp: entry_item_def entry_point_def)
next
  case (EntryDict d)
  obtain lat where lat: "py_float (attr_get d ''lat'' PNone) = Inr lat"
    using ok EntryDict by (auto simp: entry_item_def split: sum.splits)
  obtain lon where lon: "py_float (attr_get d ''lon'' PNone) = Inr lon"
    using ok EntryDict lat by (auto simp: entry_item_def split: sum.splits)
  obtain sc where sc: "py_float (attr_get d ''score'' (PNum 1)) = Inr sc"
    using ok EntryDict lat lon by (auto simp: entry_item_def split: sum.splits)
  have it: "it = (lat, lon, sc)"
    using ok EntryDict lat lon sc by (simp add: entry_item_def)
  have dlat: "d ''lat'' = Some (PNum lat)"
    using lat by (auto simp: attr_get_def split: option.splits elim: py_float.elims)
  have dlon: "d ''lon'' = Some (PNum lon)"
    using lon by (auto simp: attr_get_def split: option.splits elim: py_float.elims)
  have dsc: "(d ''score'' = None \<and> sc = 1) \<or> d ''score'' = Some (PNum sc)"
    using sc by (auto simp: attr_get_def split: option.splits elim: py_float.elims)
  show ?thesis
    using dsc by (auto simp: entry_point_def EntryDict dlat dlon it)
qed

lemma feature_score_float:
  "py_float (hazard_score_prop f) = Inr sc \<Longrightarrow> feature_score f = Some sc"
  by (auto simp: hazard_score_prop_def feature_score_def split: option.splits elim: py_float.elims)

lemma entries_loop_eq:
  "entries_loop hps items = Inr r \<Longrightarrow> r = items @ List.map_filter entry_point hps"
proof (induction hps arbitrary: items)
  case Nil
  then show ?case by simp
next
  case (Cons hp hps)
  show ?case
  proof (cases "entry_item hp")
    case (Inl e)
    then show ?thesis using Cons.prems by simp
  next
    case (Inr it)
    then have ep: "entry_point hp = Some it" by (rule entry_item_point)
    have "entries_loop hps (items @ [it]) = Inr r" using Cons.prems Inr by simp
    from Cons.IH [OF this] show ?thesis by (simp add: ep)
  qed
qed

lemma features_loop_eq:
  "features_loop fs items = Inr r \<Longrightarrow> r = items @ List.map_filter feature_point fs"
proof (induction fs arbitrary: items)
  case Nil
  then show ?case by simp
next
  case (Cons f fs)
  show ?case
  proof (cases "f_type f = Some ''Point''")
    case False
    then show ?thesis using Cons
      by (simp add: feature_point_def)
  next
    case pt: True
    show ?thesis
    proof (cases "f_coords f")
      case None
      then show ?thesis using Cons pt
        by (simp add: feature_point_def)
    next
      case (Some cs)
      show ?thesis
      proof (cases cs)
        case Nil
        then show ?thesis using Cons pt Some
          by (simp add: feature_point_def)
      next
        case c1: (Cons lon cs1)
        show ?thesis
        proof (cases cs1)
          case Nil
          then show ?thesis using Cons pt Some c1
            by (simp add: feature_point_def)
        next
          case c2: (Cons lat rest)
          show ?thesis
          proof (cases "py_float (hazard_score_prop f)")
            case (Inl e)
            then show ?thesis using Cons.prems pt Some c1 c2 by simp
          next
            case (Inr sc)
            have "features_loop fs (items @ [(lat, lon, sc)]) = Inr r"
              using Cons.prems pt Some c1 c2 Inr by simp
            from Cons.IH [OF this] show ?thesis using pt Some c1 c2
              by (simp add: feature_point_def feature_score_float [OF Inr])
          qed
        qed
      qed
    qed
  qed
qed

lemma saved_feature_stored: "saved_feature it = stored_point it"
  by (cases it) (simp add: saved_feature_def stored_point_def clamp_save_hazards_eq)

lemma save_hazards_stored:
  "save_hazards items st =
     (map stored_point items, st\<lparr>hazards_file := Some (Features (map stored_point items))\<rparr>)"
proof -
  have "map saved_feature items = map stored_point items"
    by (simp add: saved_feature_stored)
  then show ?thesis by (simp add: save_hazards_def Let_def)
qed

lemma hazards_loop_saved_step:
  "hazards_loop (saved_feature (lat, lon, sc) # fs) pts =
     hazards_loop fs (pts @ [clamp_point (lat, lon, sc)])"
  by (simp add: saved_feature_def hazard_score_prop_def clamp_point_def
      clamp_load_hazards_eq clamp_save_hazards_eq clamp01_idem)

lemma hazards_loop_saved:
  "hazards_loop (map saved_feature items) pts = pts @ map clamp_point items"
proof (induction items arbitrary: pts)
  case Nil
  then show ?case by simp
next
  case (Cons it items)
  obtain lat lon sc where it: "it = (lat, lon, sc)" by (cases it) auto
  have "hazards_loop (map saved_feature (it # items)) pts =
      hazards_loop (map saved_feature items) (pts @ [clamp_point it])"
    unfolding it list.map by (rule hazards_loop_saved_step)
  then show ?case by (simp add: Cons.IH)
qed

lemma load_after_save:
  "load_hazards (snd (save_hazards items st)) = map clamp_point items"
  by (simp add: load_hazards_def save_hazards_def Let_def hazards_loop_saved)

lemma load_hazards_saved:
  "hazards_file st = Some (Features (map saved_feature items)) \<Longrightarrow>
   load_hazards st = map clamp_point items"
  by (simp add: load_hazards_def hazards_loop_saved)

lemma post_hazards_items:
  assumes "post_hazards pl st = Inr (data, st')"
  shows "(data, st') = save_hazards (payload_points pl) st"
proof (cases pl)
  case (PayloadList hps)
  then obtain items where l: "entries_loop hps [] = Inr items" and sv: "save_hazards items st = (data, st')"
    using assms by (auto simp: post_hazards_def split: sum.splits)
  have "items = payload_points pl"
    using entries_loop_eq [OF l] by (simp add: payload_points_def PayloadList)
  then show ?thesis using sv by simp
next
  case (PayloadDict fo)
  then obtain items where l: "features_loop (case fo of None \<Rightarrow> [] | Some feats \<Rightarrow> feats) [] = Inr items"
    and sv: "save_hazards items st = (data, st')"
    using assms by (auto simp: post_hazards_def split: sum.splits)
  have "items = payload_points pl"
    using features_loop_eq [OF l]
    by (cases fo) (simp_all add: payload_points_def PayloadDict)
  then show ?thesis using sv by simp
qed

text \<open>
  Claim C10: after a successful \<^verbatim>\<open>POST /hazards\<close> the hazards file holds exactly the
  points of the payload, each stored as a Point feature whose score is the score of the
  point clamped to \<open>[0, 1]\<close>; nothing else of the state changes, the response is the
  stored collection, and \<^verbatim>\<open>_load_hazards\<close> reads back the points with the clamped
  scores. The new content does not mention the content before the call: whatever was
  stored before is gone.
\<close>

theorem post_hazards_replaces:
  assumes "post_hazards pl st = Inr (data, st')"
  shows "st' = st\<lparr>hazards_file := Some (Features (map stored_point (payload_points pl)))\<rparr> \<and>
         data = map stored_point (payload_points pl) \<and>
         load_hazards st' = map clamp_point (payload_points pl)"
proof -
  have sv: "(data, st') = save_hazards (payload_points pl) st"
    using assms by (rule post_hazards_items)
  then have "st' = st\<lparr>hazards_file := Some (Features (map stored_point (payload_points pl)))\<rparr>"
    and "data = map stored_point (payload_points pl)"
    by (simp_all add: save_hazards_stored)
  moreover have "load_hazards st' = map clamp_point (payload_points pl)"
    using load_after_save [of "payload_points pl" st] sv [symmetric] by simp
  ultimately show ?thesis by simp
qed

text \<open>
  The theorem for a payload of one point with the score 1.7, posted over a stored
  collection that holds another point: the file then holds the one point of the
  payload, with the score 1.
\<close>

theorem post_hazards_replaces_witness:
  "post_hazards posted_points stored_state =
     Inr ([stored_point (1, 2, 17 / 10)],
          stored_state\<lparr>hazards_file := Some (Features [stored_point (1, 2, 17 / 10)])\<rparr>) \<and>
   stored_point (1, 2, 17 / 10) =
     \<lparr>f_type = Some ''Point'', f_coords = Some [2, 1], p_safety_score = None, p_score = Some (PNum 1)\<rparr> \<and>
   load_hazards (stored_state\<lparr>hazards_file := Some (Features [stored_point (1, 2, 17 / 10)])\<rparr>) = [(1, 2, 1)]"
proof -
  have p: "post_hazards posted_points stored_state =
      Inr ([stored_point (1, 2, 17 / 10)],
           stored_state\<lparr>hazards_file := Some (Features [stored_point (1, 2, 17 / 10)])\<rparr>)"
    by (simp add: post_hazards_def posted_points_def entry_item_def save_hazards_stored)
  have pp: "payload_points posted_points = [(1, 2, 17 / 10)]"
    by (simp add: payload_points_def posted_points_def entry_point_def)
  have sp: "stored_point (1, 2, 17 / 10) =
     \<lparr>f_type = Some ''Point'', f_coords = Some [2, 1], p_safety_score = None, p_score = Some (PNum 1)\<rparr>"
    by (simp add: stored_point_def clamp01_def)
  have cp: "clamp_point (1, 2, 17 / 10) = (1, 2, 1)"
    by (simp add: clamp_point_def clamp01_def)
  have "load_hazards (stored_state\<lparr>hazards_file := Some (Features [stored_point (1, 2, 17 / 10)])\<rparr>) =
      map clamp_point (payload_points posted_points)"
    using post_hazards_replaces [OF p] by (elim conjE)
  then show ?thesis using p sp by (simp add: pp cp)
qed

subsection \<open>Danger points of a request\<close>

lemma danger_entry_raises: "danger_entry dp = Inl AttributeError"
  by (simp add: danger_entry_def dp_field_def dp_get_def)

lemma extra_danger_loop_drops: "extra_danger_loop dps ped_pts = ped_pts"
  by (cases dps) (simp_all add: danger_entry_raises)

lemma danger_pts_ignores_extra: "danger_pts (Some dps) st = danger_pts None st"
  by (simp add: danger_pts_def extra_danger_loop_drops)

lemma load_hazards_stored:
  "hazards_file st = hazards_file stored_state \<Longrightarrow> load_hazards st = [(10, 20, 1 / 2)]"
  using load_hazards_saved [of st "[(10, 20, 1 / 2)]"]
  by (simp add: stored_state_def clamp_point_def clamp01_def)

text \<open>
  Claim C4 says that the hazard points used for the costs of a request are the stored
  ones together with the \<^verbatim>\<open>extra_danger\<close> points of the request. In the code the first
  \<^verbatim>\<open>dp.get\<close> raises, the exception is dropped, and no point of the request is
  appended: for a request with one danger point at \<open>(1, 2)\<close> the list used holds the
  stored point only.
\<close>

theorem extra_danger_not_used:
  "(case danger_pts (Some [extra_point]) stored_state of (a, st') \<Rightarrow> heap st' a) = [(10, 20, 1 / 2)]"
proof -
  have lp: "load_pedestrians stored_state = new_list [] stored_state"
    by (simp add: load_pedestrians_def stored_state_def)
  have lh: "load_hazards (snd (new_list [] stored_state)) = [(10, 20, 1 / 2)]"
    by (rule load_hazards_stored) (simp add: new_list_def)
  show ?thesis
    by (simp add: danger_pts_def lp extra_danger_loop_drops Let_def split_beta lh)
       (simp add: new_list_def)
qed

text \<open>
  Claim C5 says that a danger point of a request with the score 1.7 is used with the
  score 1. The conversion of the point raises before its score is clamped, and the list
  of points stays as it was.
\<close>

theorem extra_danger_score_dropped:
  "danger_entry extra_point = Inl AttributeError \<and> extra_danger_loop [extra_point] [] = []"
  by (simp add: danger_entry_raises)

text \<open>
  The list that \<^verbatim>\<open>_load_pedestrians\<close> returns is the cached list itself, and
  \<^verbatim>\<open>ped_pts += _load_hazards()\<close> extends it in place. With a pedestrians file present,
  a hazard read by one request stays in the list of the next one, also after the
  hazards file has been deleted.
\<close>

lemma cached_list_keeps_hazards:
  "(case danger_pts None stored_state_peds of (a, st1) \<Rightarrow>
      case danger_pts None (delete_hazards st1) of (b, st2) \<Rightarrow>
        (load_hazards (delete_hazards st1), heap st2 b)) = ([], [(10, 20, 1 / 2)])"
proof -
  define st0 where "st0 = stored_state_peds\<lparr>heap := (heap stored_state_peds)(0 := []), next_addr := 1,
            ped_cache_pts := Some 0, ped_cache_mtime := Some 1\<rparr>"
  have lp: "load_pedestrians stored_state_peds = (0, st0)"
    by (simp add: load_pedestrians_def read_pedestrians_def new_list_def stored_state_peds_def
        stored_state_def st0_def)
  have lh: "load_hazards st0 = [(10, 20, 1 / 2)]"
    by (rule load_hazards_stored) (simp add: st0_def stored_state_peds_def)
  define st1 where "st1 = st0\<lparr>heap := (heap st0)(0 := [(10, 20, 1 / 2)])\<rparr>"
  have d1: "danger_pts None stored_state_peds = (0, st1)"
    by (simp add: danger_pts_def lp lh Let_def st1_def) (simp add: st0_def stored_state_peds_def stored_state_def)
  have lp2: "load_pedestrians (delete_hazards st1) = (0, delete_hazards st1)"
    by (simp add: load_pedestrians_def delete_hazards_def st1_def st0_def stored_state_peds_def stored_state_def)
  have lh2: "load_hazards (delete_hazards st1) = []"
    by (simp add: load_hazards_def delete_hazards_def)
  have h1: "heap (delete_hazards st1) 0 = [(10, 20, 1 / 2)]"
    by (simp add: delete_hazards_def st1_def)
  have d2: "danger_pts None (delete_hazards st1) = (0, delete_hazards st1)"
    by (simp add: danger_pts_def lp2 lh2 Let_def)
  show ?thesis
    by (simp add: d1 d2 lh2 h1)
qed

end
